theory Spec2Isabelle
  imports Main "HOL-Library.Sublist"
begin

text \<open>
  A model of \<open>checkmk-matrix-notify.py\<close>, the script that forwards a Checkmk
  notification to a Matrix room: it reads the notification from the environment, builds
  a plain-text and an HTML message, and sends them with one HTTP request. The functions
  below follow the source function by function; the environment, the random bytes of
  the transaction identifier and the answer of the network are the inputs of a run.
\<close>

section \<open>Python strings\<close>

text \<open>
  A Python \<open>str\<close> is a sequence of Unicode code points. The script's literals hold
  code points beyond Latin-1 (the emoji, the arrow of the State line), so a string is
  modelled as the list of its code points; \<open>str\<close> embeds an ASCII literal.
\<close>

type_synonym pystr = "nat list"

definition str :: "string \<Rightarrow> pystr" where
  "str s = map of_char s"

text \<open>
  \<open>str.upper()\<close> maps every code point to its uppercase mapping, which for some
  code points beyond ASCII is more than one code point (U+00DF gives \<open>SS\<close>) or an
  ASCII letter (U+017F gives \<open>S\<close>). The ASCII part is written out; the Unicode
  table for the code points from 128 on is the parameter \<open>uc\<close>.
\<close>

definition upper_cp :: "(nat \<Rightarrow> pystr) \<Rightarrow> nat \<Rightarrow> pystr" where
  "upper_cp uc c =
     (if c < 128 then (if 97 \<le> c \<and> c \<le> 122 then [c - 32] else [c]) else uc c)"

definition upper :: "(nat \<Rightarrow> pystr) \<Rightarrow> pystr \<Rightarrow> pystr" where
  "upper uc s = concat (map (upper_cp uc) s)"

text \<open>\<open>sep.join(lines)\<close>.\<close>

fun join :: "pystr \<Rightarrow> pystr list \<Rightarrow> pystr" where
  "join sep [] = []"
| "join sep [x] = x"
| "join sep (x # y # ys) = x @ sep @ join sep (y # ys)"

section \<open>Configuration\<close>

definition REQUEST_TIMEOUT :: nat where
  "REQUEST_TIMEOUT = 15"

definition EXIT_SUCCESS :: int where
  "EXIT_SUCCESS = 0"

definition EXIT_RETRY :: int where
  "EXIT_RETRY = 1"

definition EXIT_FAILED :: int where
  "EXIT_FAILED = 2"

text \<open>
  The emoji table, in the order of the source. The values are the code points of the
  literals: the entry of \<open>WARN\<close> is U+26A0, U+FE0F and a space, the default of
  \<open>get_emoji\<close> is U+2139, U+FE0F and a space.
\<close>

definition STATE_EMOJIS :: "(pystr \<times> pystr) list" where
  "STATE_EMOJIS =
     [(str ''OK'', [0x2705]),
      (str ''UP'', [0x2705]),
      (str ''WARN'', [0x26A0, 0xFE0F, 0x20]),
      (str ''CRIT'', [0x1F6A8]),
      (str ''DOWN'', [0x1F6A8]),
      (str ''UNKNOWN'', [0x2754])]"

section \<open>Helper functions\<close>

type_synonym environ = "pystr \<rightharpoonup> pystr"

definition get_env :: "environ \<Rightarrow> pystr \<Rightarrow> pystr \<Rightarrow> pystr" where
  "get_env env name dflt = (case env name of None \<Rightarrow> dflt | Some v \<Rightarrow> v)"

definition get_emoji :: "pystr \<Rightarrow> pystr" where
  "get_emoji state =
     (case map_of STATE_EMOJIS state of
        None \<Rightarrow> [0x2139, 0xFE0F, 0x20]
      | Some e \<Rightarrow> e)"

section \<open>Message building\<close>

text \<open>
  The fields \<open>build_message\<close> reads from the environment (source lines 76 to 95) are
  its local variables, collected in a record: this is the notification context. The flag
  \<open>is_service\<close> of the source is \<open>what == "SERVICE"\<close> and is written so where it is
  used.
\<close>

record NotificationContext =
  what :: pystr
  notification_type :: pystr
  hostname :: pystr
  site :: pystr
  timestamp :: pystr
  state :: pystr
  previous_state :: pystr
  output_text :: pystr
  service_name :: pystr

definition read_context :: "(nat \<Rightarrow> pystr) \<Rightarrow> environ \<Rightarrow> NotificationContext" where
  "read_context uc env =
     (let what = upper uc (get_env env (str ''NOTIFY_WHAT'') (str ''HOST''));
          is_service = (what = str ''SERVICE'')
      in \<lparr> what = what,
           notification_type = get_env env (str ''NOTIFY_NOTIFICATIONTYPE'') [],
           hostname = get_env env (str ''NOTIFY_HOSTNAME'') [],
           site = get_env env (str ''OMD_SITE'') [],
           timestamp = get_env env (str ''NOTIFY_SHORTDATETIME'') [],
           state =
             (if is_service then get_env env (str ''NOTIFY_SERVICESHORTSTATE'') []
              else get_env env (str ''NOTIFY_HOSTSHORTSTATE'') []),
           previous_state =
             (if is_service then get_env env (str ''NOTIFY_PREVIOUSSERVICEHARDSHORTSTATE'') []
              else get_env env (str ''NOTIFY_PREVIOUSHOSTHARDSHORTSTATE'') []),
           output_text =
             (if is_service then get_env env (str ''NOTIFY_SERVICEOUTPUT'') []
              else get_env env (str ''NOTIFY_HOSTOUTPUT'') []),
           service_name =
             (if is_service then get_env env (str ''NOTIFY_SERVICEDESC'') [] else []) \<rparr>)"

text \<open>The plain text lines (source lines 100 to 106); U+2192 is the arrow.\<close>

definition plain_lines :: "NotificationContext \<Rightarrow> pystr list" where
  "plain_lines c =
     [get_emoji (state c) @ str '' '' @ what c @ str '' '' @ notification_type c
        @ str '': '' @ hostname c]
     @ (if what c = str ''SERVICE'' then [str ''Service: '' @ service_name c] else [])
     @ [str ''State: '' @ previous_state c @ [0x20, 0x2192, 0x20] @ state c]
     @ [str ''Output: '' @ output_text c]"

definition build_plain_text :: "NotificationContext \<Rightarrow> pystr" where
  "build_plain_text c = join [0x0A] (plain_lines c)"

text \<open>The HTML lines (source lines 111 to 119).\<close>

definition html_lines :: "NotificationContext \<Rightarrow> pystr list" where
  "html_lines c =
     [str ''<p><b>'' @ get_emoji (state c) @ str '' '' @ what c @ str '' ''
        @ notification_type c @ str ''</b></p>'',
      str ''<b>Host:</b> '' @ hostname c]
     @ (if what c = str ''SERVICE'' then [str ''<b>Service:</b> '' @ service_name c] else [])
     @ [str ''<b>State:</b> '' @ previous_state c @ str '' &rarr; <b>'' @ state c
          @ str ''</b>'']
     @ [str ''<b>Output:</b> <code>'' @ output_text c @ str ''</code>'']
     @ [str ''<p><small>Site: '' @ site c @ str '' | '' @ timestamp c
          @ str ''</small></p>'']"

text \<open>
  Modelled from the spec: the end of \<open>build_message\<close>. Source line 121 breaks off
  inside \<open>html_text = "<br>".join(html\<close>, and the \<open>return\<close> of the function is
  not in the file. The specification has the HTML lines "joined with a line-break
  element" and the builder return the pair of the two texts, so the argument of the
  join is completed to the only list of that prefix, \<open>html_lines\<close>, and the returned
  pair is the one the docstring names ("Returns a tuple of (plain_text, html) message
  bodies") and \<open>main\<close> unpacks (\<open>plain_text, html_text = build_message()\<close>).
\<close>

definition build_html_text :: "NotificationContext \<Rightarrow> pystr" where
  "build_html_text c = join (str ''<br>'') (html_lines c)"

definition build_message :: "(nat \<Rightarrow> pystr) \<Rightarrow> environ \<Rightarrow> pystr \<times> pystr" where
  "build_message uc env = (let c = read_context uc env in (build_plain_text c, build_html_text c))"

section \<open>Effects and exceptions\<close>

text \<open>
  What a run of the script leaves behind: the lines printed on standard output and on
  standard error, and the calls of \<open>requests.put\<close> with their arguments, each in
  order. Every function with an effect takes the world and returns it updated.
\<close>

record http_request =
  url :: pystr
  json :: "(pystr \<times> pystr) list"
  headers :: "(pystr \<times> pystr) list"
  timeout :: nat

record world =
  stdout :: "pystr list"
  stderr :: "pystr list"
  put_calls :: "http_request list"

text \<open>
  The exceptions of a run. \<open>sys.exit(n)\<close> raises \<open>SystemExit n\<close>, which ends the
  process with exit code \<open>n\<close>; any other exception that reaches the top level is an
  unhandled one. Of the classes of \<open>requests.exceptions\<close>, a constructor stands for
  the first \<open>except\<close> clause of \<open>send_to_matrix\<close> that catches the raised class
  (\<open>ConnectTimeout\<close>, a subclass of both \<open>ConnectionError\<close> and \<open>Timeout\<close>, is
  \<open>Timeout\<close>, the clause that comes first), and carries the text of the exception;
  \<open>OtherException\<close> is an exception outside the \<open>RequestException\<close> hierarchy.
\<close>

datatype exception =
    SystemExit int
  | UnicodeEncodeError
  | Timeout pystr
  | ConnectionError pystr
  | HTTPError pystr
  | RequestException pystr
  | OtherException pystr

text \<open>The classes the \<open>except\<close> clauses of \<open>send_to_matrix\<close> catch.\<close>

fun is_request_exception :: "exception \<Rightarrow> bool" where
  "is_request_exception (Timeout err) = True"
| "is_request_exception (ConnectionError err) = True"
| "is_request_exception (HTTPError err) = True"
| "is_request_exception (RequestException err) = True"
| "is_request_exception _ = False"

text \<open>
  The answer of \<open>requests.put\<close>: a response, with its status code and the text
  \<open>raise_for_status\<close> would give its \<open>HTTPError\<close>, or a raised exception.
  \<open>Response.raise_for_status()\<close> of the \<open>requests\<close> library raises \<open>HTTPError\<close>
  for the status codes from 400 to 599 and returns for every other one.
\<close>

datatype put_result = Response nat pystr | Raised exception

definition raise_for_status :: "nat \<Rightarrow> pystr \<Rightarrow> exception option" where
  "raise_for_status status_code http_error_msg =
     (if 400 \<le> status_code \<and> status_code < 600 then Some (HTTPError http_error_msg)
      else None)"

definition print_out :: "pystr \<Rightarrow> world \<Rightarrow> world" where
  "print_out line w = w\<lparr>stdout := stdout w @ [line]\<rparr>"

definition print_err :: "pystr \<Rightarrow> world \<Rightarrow> world" where
  "print_err line w = w\<lparr>stderr := stderr w @ [line]\<rparr>"

text \<open>
  \<open>os.environ.get(name)\<close> is \<open>None\<close> or a string, and \<open>not value\<close> holds of
  \<open>None\<close> and of the empty string.
\<close>

definition not_value :: "pystr option \<Rightarrow> bool" where
  "not_value v \<longleftrightarrow> v = None \<or> v = Some []"

definition get_required_env ::
  "environ \<Rightarrow> pystr \<Rightarrow> world \<Rightarrow> (exception + pystr) \<times> world" where
  "get_required_env env name w =
     (let v = env name
      in if not_value v then
           (Inl (SystemExit EXIT_FAILED),
            print_err (str ''ERROR: Missing required environment variable: '' @ name) w)
         else (Inr (the v), w))"

section \<open>Percent-encoding\<close>

text \<open>
  \<open>requests.utils.quote\<close> is \<open>urllib.parse.quote\<close>: it encodes the string as UTF-8
  with the error handler \<open>strict\<close>, which raises \<open>UnicodeEncodeError\<close> on a surrogate
  code point (U+D800 to U+DFFF), and replaces every byte that is neither one of the
  always-safe bytes (letters, digits, \<open>_ . - ~\<close>) nor in \<open>safe\<close> by \<open>%XX\<close>, with
  two uppercase hexadecimal digits.
\<close>

definition utf8_encode_cp :: "nat \<Rightarrow> nat list option" where
  "utf8_encode_cp c =
     (if c < 0x80 then Some [c]
      else if c < 0x800 then Some [0xC0 + c div 64, 0x80 + c mod 64]
      else if 0xD800 \<le> c \<and> c \<le> 0xDFFF then None
      else if c < 0x10000 then
        Some [0xE0 + c div 4096, 0x80 + c div 64 mod 64, 0x80 + c mod 64]
      else
        Some [0xF0 + c div 262144 mod 8, 0x80 + c div 4096 mod 64,
              0x80 + c div 64 mod 64, 0x80 + c mod 64])"

fun utf8_encode :: "pystr \<Rightarrow> nat list option" where
  "utf8_encode [] = Some []"
| "utf8_encode (c # cs) =
     (case utf8_encode_cp c of
        None \<Rightarrow> None
      | Some bs \<Rightarrow>
          (case utf8_encode cs of None \<Rightarrow> None | Some rest \<Rightarrow> Some (bs @ rest)))"

definition always_safe :: "nat \<Rightarrow> bool" where
  "always_safe b \<longleftrightarrow>
     (65 \<le> b \<and> b \<le> 90) \<or> (97 \<le> b \<and> b \<le> 122) \<or> (48 \<le> b \<and> b \<le> 57)
     \<or> b = 95 \<or> b = 46 \<or> b = 45 \<or> b = 126"

definition hex_upper :: "nat \<Rightarrow> nat" where
  "hex_upper d = (if d < 10 then 48 + d else 55 + d)"

definition quote_byte :: "pystr \<Rightarrow> nat \<Rightarrow> pystr" where
  "quote_byte safe b =
     (if always_safe b \<or> b \<in> set safe then [b]
      else [37, hex_upper (b div 16), hex_upper (b mod 16)])"

definition quote :: "pystr \<Rightarrow> pystr \<Rightarrow> exception + pystr" where
  "quote string safe =
     (case utf8_encode string of
        None \<Rightarrow> Inl UnicodeEncodeError
      | Some bs \<Rightarrow> Inr (concat (map (quote_byte safe) bs)))"

section \<open>Transaction identifiers\<close>

text \<open>
  \<open>uuid.uuid4()\<close> is \<open>UUID(bytes=os.urandom(16), version=4)\<close>: of the 16 random
  bytes, the high four bits of byte 6 are set to the version 4 and the high two bits of
  byte 8 to the variant \<open>10\<close>. \<open>str\<close> of a UUID prints its 32 lowercase hexadecimal
  digits in groups of 8, 4, 4, 4 and 12, joined by hyphens. The bytes \<open>os.urandom\<close>
  returns in a run are the parameter \<open>rnd\<close> of the run.
\<close>

definition uuid4 :: "nat list \<Rightarrow> nat list" where
  "uuid4 rnd = rnd[6 := 0x40 + rnd ! 6 mod 16, 8 := 0x80 + rnd ! 8 mod 64]"

definition hex_lower :: "nat \<Rightarrow> nat" where
  "hex_lower d = (if d < 10 then 48 + d else 87 + d)"

definition hex2 :: "nat \<Rightarrow> pystr" where
  "hex2 b = [hex_lower (b div 16), hex_lower (b mod 16)]"

definition uuid_str :: "nat list \<Rightarrow> pystr" where
  "uuid_str u =
     (let hex = concat (map hex2 u)
      in take 8 hex @ str ''-'' @ take 4 (drop 8 hex) @ str ''-'' @ take 4 (drop 12 hex)
           @ str ''-'' @ take 4 (drop 16 hex) @ str ''-'' @ drop 20 hex)"

text \<open>
  The canonical textual form of a version 4 UUID, as a predicate on strings: 36
  characters, hyphens (code point 45) at the positions 8, 13, 18 and 23, the version
  digit \<open>4\<close> at position 14, one of \<open>8 9 a b\<close> at position 19, and lowercase
  hexadecimal digits everywhere else.
\<close>

definition is_hex_lower :: "nat \<Rightarrow> bool" where
  "is_hex_lower c \<longleftrightarrow> (48 \<le> c \<and> c \<le> 57) \<or> (97 \<le> c \<and> c \<le> 102)"

definition canonical_uuid4 :: "pystr \<Rightarrow> bool" where
  "canonical_uuid4 t \<longleftrightarrow>
     length t = 36 \<and>
     list_all is_hex_lower (take 8 t) \<and> t ! 8 = 45 \<and>
     list_all is_hex_lower (take 4 (drop 9 t)) \<and> t ! 13 = 45 \<and>
     t ! 14 = 52 \<and> list_all is_hex_lower (take 3 (drop 15 t)) \<and> t ! 18 = 45 \<and>
     t ! 19 \<in> {56, 57, 97, 98} \<and> list_all is_hex_lower (take 3 (drop 20 t)) \<and>
     t ! 23 = 45 \<and>
     list_all is_hex_lower (drop 24 t)"

section \<open>Delivery\<close>

text \<open>
  The \<open>except\<close> clauses of \<open>send_to_matrix\<close>, in the order of the source; an
  exception none of them catches propagates.
\<close>

definition handle_request_error ::
  "exception \<Rightarrow> world \<Rightarrow> (exception + bool) \<times> world" where
  "handle_request_error e w =
     (case e of
        Timeout err \<Rightarrow> (Inr False, print_err (str ''ERROR: Request timed out'') w)
      | ConnectionError err \<Rightarrow>
          (Inr False, print_err (str ''ERROR: Could not connect to server: '' @ err) w)
      | HTTPError err \<Rightarrow> (Inr False, print_err (str ''ERROR: HTTP error: '' @ err) w)
      | RequestException err \<Rightarrow>
          (Inr False, print_err (str ''ERROR: Request failed: '' @ err) w)
      | _ \<Rightarrow> (Inl e, w))"

text \<open>
  \<open>put\<close> is the answer of the network to a call of \<open>requests.put\<close>. The call is
  recorded in the world before its answer is looked at.
\<close>

definition send_to_matrix ::
  "nat list \<Rightarrow> (http_request \<Rightarrow> put_result) \<Rightarrow> pystr \<Rightarrow> pystr \<Rightarrow> pystr \<Rightarrow> pystr \<Rightarrow> pystr
     \<Rightarrow> world \<Rightarrow> (exception + bool) \<times> world" where
  "send_to_matrix rnd put homeserver access_token room_id plain_text html_text w =
     (let txn_id = uuid_str (uuid4 rnd) in
      case quote room_id [] of
        Inl e \<Rightarrow> (Inl e, w)
      | Inr encoded_room_id \<Rightarrow>
          (let url = str ''https://'' @ homeserver @ str ''/_matrix/client/v3/rooms/''
                       @ encoded_room_id @ str ''/send/m.room.message/'' @ txn_id;
               headers =
                 [(str ''Content-Type'', str ''application/json''),
                  (str ''Authorization'', str ''Bearer '' @ access_token)];
               payload =
                 [(str ''msgtype'', str ''m.text''),
                  (str ''body'', plain_text),
                  (str ''format'', str ''org.matrix.custom.html''),
                  (str ''formatted_body'', html_text)];
               request =
                 \<lparr>url = url, json = payload, headers = headers, timeout = REQUEST_TIMEOUT\<rparr>;
               w' = w\<lparr>put_calls := put_calls w @ [request]\<rparr>
           in case put request of
                Response status_code http_error_msg \<Rightarrow>
                  (case raise_for_status status_code http_error_msg of
                     None \<Rightarrow>
                       (Inr True, print_out (str ''OK: Message sent successfully'') w')
                   | Some e \<Rightarrow> handle_request_error e w')
              | Raised e \<Rightarrow> handle_request_error e w'))"

section \<open>Main\<close>

text \<open>
  \<open>main\<close> always ends by raising: \<open>SystemExit\<close> with the exit code, or the exception
  that nothing caught. The world starts empty.
\<close>

definition main ::
  "(nat \<Rightarrow> pystr) \<Rightarrow> nat list \<Rightarrow> (http_request \<Rightarrow> put_result) \<Rightarrow> environ
     \<Rightarrow> exception \<times> world" where
  "main uc rnd put env =
     (case get_required_env env (str ''NOTIFY_PARAMETER_1'')
             \<lparr>stdout = [], stderr = [], put_calls = []\<rparr> of
        (Inl e, w1) \<Rightarrow> (e, w1)
      | (Inr homeserver, w1) \<Rightarrow>
     (case get_required_env env (str ''NOTIFY_PARAMETER_2'') w1 of
        (Inl e, w2) \<Rightarrow> (e, w2)
      | (Inr access_token, w2) \<Rightarrow>
     (case get_required_env env (str ''NOTIFY_PARAMETER_3'') w2 of
        (Inl e, w3) \<Rightarrow> (e, w3)
      | (Inr room_id, w3) \<Rightarrow>
     (case build_message uc env of
        (plain_text, html_text) \<Rightarrow>
     (case send_to_matrix rnd put homeserver access_token room_id plain_text html_text w3 of
        (Inl e, w4) \<Rightarrow> (e, w4)
      | (Inr success, w4) \<Rightarrow>
          if success then (SystemExit EXIT_SUCCESS, w4)
          else (SystemExit EXIT_RETRY, w4))))))"

section \<open>Example inputs\<close>

text \<open>
  Concrete inputs on which the theorems below are evaluated: an uppercase table that
  leaves the code points from 128 on as they are (the example environments are ASCII,
  so the table is never consulted on them), sixteen random bytes, the environment of a
  service notification with the room identifier of the specification, an environment
  that sets the site only, an environment whose room identifier is the surrogate
  U+DCFF (what \<open>os.environ\<close> holds for the byte \<open>0xFF\<close>), and networks that
  answer every call of \<open>requests.put\<close> alike.
\<close>

definition example_uc :: "nat \<Rightarrow> pystr" where
  "example_uc c = [c]"

definition example_rnd :: "nat list" where
  "example_rnd = [0x12, 0x34, 0x56, 0x78, 0x9A, 0xBC, 0xDE, 0xF0,
                  0x0F, 0x1E, 0x2D, 0x3C, 0x4B, 0x5A, 0x69, 0x78]"

definition example_env :: environ where
  "example_env = map_of
     [(str ''NOTIFY_PARAMETER_1'', str ''matrix.example.org''),
      (str ''NOTIFY_PARAMETER_2'', str ''secret''),
      (str ''NOTIFY_PARAMETER_3'', str ''!abc123:example.org''),
      (str ''NOTIFY_WHAT'', str ''service''),
      (str ''NOTIFY_NOTIFICATIONTYPE'', str ''PROBLEM''),
      (str ''NOTIFY_HOSTNAME'', str ''web1''),
      (str ''OMD_SITE'', str ''prod''),
      (str ''NOTIFY_SHORTDATETIME'', str ''2024-05-01 12:00:00''),
      (str ''NOTIFY_SERVICESHORTSTATE'', str ''CRIT''),
      (str ''NOTIFY_PREVIOUSSERVICEHARDSHORTSTATE'', str ''OK''),
      (str ''NOTIFY_SERVICEOUTPUT'', str ''disk full''),
      (str ''NOTIFY_SERVICEDESC'', str ''disk'')]"

definition example_site_env :: "pystr \<Rightarrow> environ" where
  "example_site_env s = map_of [(str ''OMD_SITE'', s)]"

definition example_bad_room_env :: environ where
  "example_bad_room_env = map_of
     [(str ''NOTIFY_PARAMETER_1'', str ''matrix.example.org''),
      (str ''NOTIFY_PARAMETER_2'', str ''secret''),
      (str ''NOTIFY_PARAMETER_3'', [0xDCFF])]"

definition responds :: "nat \<Rightarrow> pystr \<Rightarrow> http_request \<Rightarrow> put_result" where
  "responds status_code http_error_msg request = Response status_code http_error_msg"

definition raises :: "exception \<Rightarrow> http_request \<Rightarrow> put_result" where
  "raises e request = Raised e"

section \<open>Emoji selection\<close>

text \<open>
  C6, as the claim states it, fails: the claim gives the indicator of \<open>WARN\<close> as
  exactly the warning sign (U+26A0 U+FE0F) and the default as exactly the information
  sign (U+2139 U+FE0F), while both literals of the source end in a space.
\<close>

theorem get_emoji_WARN_default_trailing_space:
  "get_emoji (str ''WARN'') = [0x26A0, 0xFE0F, 0x20] \<and>
   get_emoji (str ''WARN'') \<noteq> [0x26A0, 0xFE0F] \<and>
   get_emoji (str ''frobnicate'') = [0x2139, 0xFE0F, 0x20] \<and>
   get_emoji (str ''frobnicate'') \<noteq> [0x2139, 0xFE0F]"
  by (simp add: get_emoji_def STATE_EMOJIS_def str_def)

text \<open>
  C6, amended: for every state string, \<open>get_emoji\<close> returns U+2705 for \<open>OK\<close> and
  \<open>UP\<close>, U+26A0 U+FE0F followed by a space for \<open>WARN\<close>, U+1F6A8 for \<open>CRIT\<close> and
  \<open>DOWN\<close>, U+2754 for \<open>UNKNOWN\<close>, and U+2139 U+FE0F followed by a space for every
  other string; the lookup compares the raw string, so it is exact and case-sensitive.
\<close>

theorem get_emoji_table:
  "get_emoji s =
     (if s = str ''OK'' \<or> s = str ''UP'' then [0x2705]
      else if s = str ''WARN'' then [0x26A0, 0xFE0F, 0x20]
      else if s = str ''CRIT'' \<or> s = str ''DOWN'' then [0x1F6A8]
      else if s = str ''UNKNOWN'' then [0x2754]
      else [0x2139, 0xFE0F, 0x20])"
  by (simp add: get_emoji_def STATE_EMOJIS_def str_def)

section \<open>Lines and substrings\<close>

text \<open>
  \<open>sublist xs ys\<close> says that \<open>xs\<close> occurs in \<open>ys\<close> as a contiguous
  substring. Every line is a substring of the joined text, and every field is a
  substring of the line it is formatted into.
\<close>

lemma sublist_skip: "sublist xs zs \<Longrightarrow> sublist xs (ys @ zs)"
  unfolding sublist_def by (metis append.assoc)

lemma sublist_join: "x \<in> set xs \<Longrightarrow> sublist x (join sep xs)"
proof (induction sep xs rule: join.induct)
  case (1 sep)
  then show ?case by simp
next
  case (2 sep x')
  then show ?case by simp
next
  case (3 sep x' y ys)
  show ?case
  proof (cases "x = x'")
    case True
    then show ?thesis by simp
  next
    case False
    with 3 have "sublist x (join sep (y # ys))" by simp
    then show ?thesis by (simp add: sublist_skip)
  qed
qed

lemma sublist_line: "l \<in> set ls \<Longrightarrow> sublist x l \<Longrightarrow> sublist x (join sep ls)"
  using sublist_join sublist_order.order_trans by blast

lemma join_not_Nil: "x \<in> set xs \<Longrightarrow> x \<noteq> [] \<Longrightarrow> join sep xs \<noteq> []"
  using sublist_join [of x xs sep] by (auto simp: sublist_def)

lemma plain_first_line:
  "get_emoji (state c) @ str '' '' @ what c @ str '' '' @ notification_type c
     @ str '': '' @ hostname c \<in> set (plain_lines c)"
  by (simp add: plain_lines_def)

lemma plain_service_line:
  "what c = str ''SERVICE'' \<Longrightarrow> str ''Service: '' @ service_name c \<in> set (plain_lines c)"
  by (simp add: plain_lines_def)

lemma plain_state_line:
  "str ''State: '' @ previous_state c @ [0x20, 0x2192, 0x20] @ state c \<in> set (plain_lines c)"
  by (simp add: plain_lines_def)

lemma plain_output_line: "str ''Output: '' @ output_text c \<in> set (plain_lines c)"
  by (simp add: plain_lines_def)

lemma html_header_line:
  "str ''<p><b>'' @ get_emoji (state c) @ str '' '' @ what c @ str '' ''
     @ notification_type c @ str ''</b></p>'' \<in> set (html_lines c)"
  by (simp add: html_lines_def)

lemma html_host_line: "str ''<b>Host:</b> '' @ hostname c \<in> set (html_lines c)"
  by (simp add: html_lines_def)

lemma html_service_line:
  "what c = str ''SERVICE'' \<Longrightarrow>
     str ''<b>Service:</b> '' @ service_name c \<in> set (html_lines c)"
  by (simp add: html_lines_def)

lemma html_state_line:
  "str ''<b>State:</b> '' @ previous_state c @ str '' &rarr; <b>'' @ state c @ str ''</b>''
     \<in> set (html_lines c)"
  by (simp add: html_lines_def)

lemma html_output_line:
  "str ''<b>Output:</b> <code>'' @ output_text c @ str ''</code>'' \<in> set (html_lines c)"
  by (simp add: html_lines_def)

lemma html_footer_line:
  "str ''<p><small>Site: '' @ site c @ str '' | '' @ timestamp c @ str ''</small></p>''
     \<in> set (html_lines c)"
  by (simp add: html_lines_def)

lemma plain_not_Nil: "build_plain_text c \<noteq> []"
  unfolding build_plain_text_def
  by (rule join_not_Nil [OF plain_output_line]) (simp add: str_def)

lemma html_not_Nil: "build_html_text c \<noteq> []"
  unfolding build_html_text_def
  by (rule join_not_Nil [OF html_host_line]) (simp add: str_def)

lemma plain_has_state_line:
  "sublist (str ''State: '' @ previous_state c @ [0x20, 0x2192, 0x20] @ state c)
     (build_plain_text c)"
  unfolding build_plain_text_def by (rule sublist_join [OF plain_state_line])

lemma plain_has_emoji: "sublist (get_emoji (state c)) (build_plain_text c)"
  unfolding build_plain_text_def
  by (rule sublist_line [OF plain_first_line]) (rule sublist_append_rightI)

lemma plain_has_what: "sublist (what c) (build_plain_text c)"
  unfolding build_plain_text_def
  by (rule sublist_line [OF plain_first_line])
    (rule sublist_append_rightI | rule sublist_skip)+

lemma plain_has_notification_type: "sublist (notification_type c) (build_plain_text c)"
  unfolding build_plain_text_def
  by (rule sublist_line [OF plain_first_line])
    (rule sublist_append_rightI | rule sublist_skip)+

lemma plain_has_hostname: "sublist (hostname c) (build_plain_text c)"
  unfolding build_plain_text_def
  by (rule sublist_line [OF plain_first_line])
    (rule sublist_order.order_refl | rule sublist_skip)+

lemma plain_has_service_name:
  "what c = str ''SERVICE'' \<Longrightarrow> sublist (service_name c) (build_plain_text c)"
  unfolding build_plain_text_def
  by (rule sublist_line [OF plain_service_line]) (simp_all add: sublist_skip)

lemma plain_has_previous_state: "sublist (previous_state c) (build_plain_text c)"
  unfolding build_plain_text_def
  by (rule sublist_line [OF plain_state_line])
    (rule sublist_append_rightI | rule sublist_skip)+

lemma plain_has_state: "sublist (state c) (build_plain_text c)"
  unfolding build_plain_text_def
  by (rule sublist_line [OF plain_state_line])
    (rule sublist_order.order_refl | rule sublist_skip)+

lemma plain_has_output: "sublist (output_text c) (build_plain_text c)"
  unfolding build_plain_text_def
  by (rule sublist_line [OF plain_output_line])
    (rule sublist_order.order_refl | rule sublist_skip)+

lemma html_has_emoji: "sublist (get_emoji (state c)) (build_html_text c)"
  unfolding build_html_text_def
  by (rule sublist_line [OF html_header_line])
    (rule sublist_append_rightI | rule sublist_skip)+

lemma html_has_what: "sublist (what c) (build_html_text c)"
  unfolding build_html_text_def
  by (rule sublist_line [OF html_header_line])
    (rule sublist_append_rightI | rule sublist_skip)+

lemma html_has_notification_type: "sublist (notification_type c) (build_html_text c)"
  unfolding build_html_text_def
  by (rule sublist_line [OF html_header_line])
    (rule sublist_append_rightI | rule sublist_skip)+

lemma html_has_hostname: "sublist (hostname c) (build_html_text c)"
  unfolding build_html_text_def
  by (rule sublist_line [OF html_host_line])
    (rule sublist_order.order_refl | rule sublist_skip)+

lemma html_has_service_name:
  "what c = str ''SERVICE'' \<Longrightarrow> sublist (service_name c) (build_html_text c)"
  unfolding build_html_text_def
  by (rule sublist_line [OF html_service_line]) (simp_all add: sublist_skip)

lemma html_has_transition:
  "sublist (previous_state c @ str '' &rarr; <b>'' @ state c @ str ''</b>'')
     (build_html_text c)"
  unfolding build_html_text_def
  by (rule sublist_line [OF html_state_line])
    (rule sublist_order.order_refl | rule sublist_skip)+

lemma html_has_previous_state: "sublist (previous_state c) (build_html_text c)"
  unfolding build_html_text_def
  by (rule sublist_line [OF html_state_line])
    (rule sublist_append_rightI | rule sublist_skip)+

lemma html_has_state: "sublist (state c) (build_html_text c)"
  unfolding build_html_text_def
  by (rule sublist_line [OF html_state_line])
    (rule sublist_append_rightI | rule sublist_skip)+

lemma html_has_output: "sublist (output_text c) (build_html_text c)"
  unfolding build_html_text_def
  by (rule sublist_line [OF html_output_line])
    (rule sublist_append_rightI | rule sublist_skip)+

lemma html_has_site: "sublist (site c) (build_html_text c)"
  unfolding build_html_text_def
  by (rule sublist_line [OF html_footer_line])
    (rule sublist_append_rightI | rule sublist_skip)+

lemma html_has_timestamp: "sublist (timestamp c) (build_html_text c)"
  unfolding build_html_text_def
  by (rule sublist_line [OF html_footer_line])
    (rule sublist_append_rightI | rule sublist_skip)+

section \<open>The message builder\<close>

text \<open>
  The message of the empty environment: every field renders as the empty string, the
  kind is the default \<open>HOST\<close> and the indicator is the default one.
\<close>

lemma upper_HOST: "upper uc (str ''HOST'') = str ''HOST''"
  by (simp add: upper_def upper_cp_def str_def)

lemma build_message_empty_environment:
  "build_message uc Map.empty =
     ([0x2139, 0xFE0F, 0x20] @ str '' HOST : '' @ [0x0A]
        @ str ''State: '' @ [0x20, 0x2192, 0x20] @ [0x0A] @ str ''Output: '',
      str ''<p><b>'' @ [0x2139, 0xFE0F, 0x20] @ str '' HOST </b></p><br><b>Host:</b> ''
        @ str ''<br><b>State:</b>  &rarr; <b></b><br><b>Output:</b> <code></code>''
        @ str ''<br><p><small>Site:  | </small></p>'')"
proof -
  have "read_context uc Map.empty =
      \<lparr>what = str ''HOST'', notification_type = [], hostname = [], site = [],
       timestamp = [], state = [], previous_state = [], output_text = [],
       service_name = []\<rparr>"
    by (simp add: read_context_def get_env_def upper_HOST Let_def)
  then show ?thesis
    by (simp add: build_message_def build_plain_text_def build_html_text_def
        plain_lines_def html_lines_def get_emoji_def STATE_EMOJIS_def str_def)
qed

text \<open>
  C1: for every environment (every assignment of the input fields, the empty one
  included) \<open>build_message\<close> returns a pair of strings; both are non-empty; the
  plain text contains the line \<open>State: previous \<rightarrow> state\<close> and the output text,
  the HTML text contains the transition as it renders it, \<open>previous &rarr; <b>state</b>\<close>,
  and the output text, each verbatim. The function has no failing path: it is a total
  function of the environment.
\<close>

theorem build_message_total:
  "let c = read_context uc env in
   \<exists>plain_text html_text.
     build_message uc env = (plain_text, html_text) \<and>
     plain_text \<noteq> [] \<and> html_text \<noteq> [] \<and>
     sublist (str ''State: '' @ previous_state c @ [0x20, 0x2192, 0x20] @ state c) plain_text \<and>
     sublist (output_text c) plain_text \<and>
     sublist (previous_state c @ str '' &rarr; <b>'' @ state c @ str ''</b>'') html_text \<and>
     sublist (output_text c) html_text"
  using plain_has_state_line [of "read_context uc env"]
    html_has_transition [of "read_context uc env"]
  by (simp add: build_message_def Let_def plain_not_Nil html_not_Nil plain_has_output
      html_has_output)

text \<open>
  C5: the plain text is exactly the first line \<open>emoji kind notificationType: hostname\<close>,
  then the line \<open>Service: serviceName\<close> if and only if the kind is \<open>SERVICE\<close>,
  then the line \<open>State: previousState \<rightarrow> state\<close>, then the line \<open>Output: output\<close>,
  joined by newlines (code point 10; the arrow is U+2192 between two spaces).
\<close>

theorem build_message_plain_text:
  "fst (build_message uc env) =
     (let c = read_context uc env in
      get_emoji (state c) @ str '' '' @ what c @ str '' '' @ notification_type c
        @ str '': '' @ hostname c
        @ (if what c = str ''SERVICE'' then [0x0A] @ str ''Service: '' @ service_name c
           else [])
        @ [0x0A] @ str ''State: '' @ previous_state c @ [0x20, 0x2192, 0x20] @ state c
        @ [0x0A] @ str ''Output: '' @ output_text c)"
  by (simp add: build_message_def Let_def build_plain_text_def plain_lines_def)

lemma plain_text_ignores_footer:
  "build_plain_text (c\<lparr>site := s, timestamp := t\<rparr>) = build_plain_text c"
  by (simp add: build_plain_text_def plain_lines_def)

lemma read_context_footer:
  "read_context uc (env(str ''OMD_SITE'' := s, str ''NOTIFY_SHORTDATETIME'' := t)) =
     (read_context uc env)
       \<lparr>site := get_env (env(str ''OMD_SITE'' := s)) (str ''OMD_SITE'') [],
        timestamp := get_env (env(str ''NOTIFY_SHORTDATETIME'' := t))
                       (str ''NOTIFY_SHORTDATETIME'') []\<rparr>"
  by (simp add: read_context_def Let_def get_env_def str_def)

lemma example_context:
  "read_context example_uc example_env =
     \<lparr>what = str ''SERVICE'', notification_type = str ''PROBLEM'', hostname = str ''web1'',
      site = str ''prod'', timestamp = str ''2024-05-01 12:00:00'', state = str ''CRIT'',
      previous_state = str ''OK'', output_text = str ''disk full'',
      service_name = str ''disk''\<rparr>"
  by (simp add: read_context_def Let_def get_env_def example_env_def example_uc_def
      upper_def upper_cp_def str_def)

text \<open>
  C9, as the claim states it, fails: the HTML text carries the site (and the timestamp)
  in its footer line, which the plain text does not have. Two environments that differ
  only in the site give the same plain text and different HTML texts.
\<close>

theorem html_footer_not_in_plain_text:
  "fst (build_message example_uc (example_site_env (str ''prod''))) =
     fst (build_message example_uc (example_site_env (str ''test''))) \<and>
   snd (build_message example_uc (example_site_env (str ''prod''))) \<noteq>
     snd (build_message example_uc (example_site_env (str ''test'')))"
  by (simp add: build_message_def read_context_def Let_def build_plain_text_def
      build_html_text_def plain_lines_def html_lines_def get_env_def example_site_env_def
      str_def)

text \<open>
  C9, amended: for every environment, each datum of the plain text (the emoji
  indicator, the kind, the notification type, the hostname, the previous state, the
  state, the output and, when the kind is \<open>SERVICE\<close>, the service name) occurs in
  the plain text and in the HTML text, so the HTML text omits nothing of the plain text;
  the HTML text carries in addition the site and the timestamp, on which the plain text
  does not depend.
\<close>

theorem html_carries_plain_text_data:
  "let c = read_context uc env;
       plain_text = fst (build_message uc env);
       html_text = snd (build_message uc env)
   in (\<forall>x \<in> {get_emoji (state c), what c, notification_type c, hostname c,
                previous_state c, state c, output_text c}.
         sublist x plain_text \<and> sublist x html_text) \<and>
      (what c = str ''SERVICE'' \<longrightarrow>
         sublist (service_name c) plain_text \<and> sublist (service_name c) html_text) \<and>
      sublist (site c) html_text \<and> sublist (timestamp c) html_text \<and>
      (\<forall>s t. fst (build_message uc
                 (env(str ''OMD_SITE'' := s, str ''NOTIFY_SHORTDATETIME'' := t))) = plain_text)"
proof -
  let ?c = "read_context uc env"
  have fields:
    "\<forall>x \<in> {get_emoji (state ?c), what ?c, notification_type ?c, hostname ?c,
            previous_state ?c, state ?c, output_text ?c}.
       sublist x (build_plain_text ?c) \<and> sublist x (build_html_text ?c)"
    by (simp add: plain_has_emoji plain_has_what plain_has_notification_type
        plain_has_hostname plain_has_previous_state plain_has_state plain_has_output
        html_has_emoji html_has_what html_has_notification_type html_has_hostname
        html_has_previous_state html_has_state html_has_output)
  have service:
    "what ?c = str ''SERVICE'' \<longrightarrow>
       sublist (service_name ?c) (build_plain_text ?c) \<and>
       sublist (service_name ?c) (build_html_text ?c)"
    by (simp add: plain_has_service_name html_has_service_name)
  have footer:
    "sublist (site ?c) (build_html_text ?c) \<and> sublist (timestamp ?c) (build_html_text ?c)"
    by (simp add: html_has_site html_has_timestamp)
  have independent:
    "build_plain_text
       (read_context uc (env(str ''OMD_SITE'' := s, str ''NOTIFY_SHORTDATETIME'' := t))) =
     build_plain_text ?c" for s t
    by (simp only: read_context_footer plain_text_ignores_footer)
  show ?thesis
    using fields service footer independent
    by (simp add: build_message_def Let_def)
qed

theorem html_carries_plain_text_data_witness:
  "what (read_context example_uc example_env) = str ''SERVICE'' \<and>
   service_name (read_context example_uc example_env) = str ''disk'' \<and>
   output_text (read_context example_uc example_env) = str ''disk full'' \<and>
   site (read_context example_uc example_env) = str ''prod'' \<and>
   sublist (str ''disk'') (fst (build_message example_uc example_env)) \<and>
   sublist (str ''disk'') (snd (build_message example_uc example_env)) \<and>
   sublist (str ''disk full'') (fst (build_message example_uc example_env)) \<and>
   sublist (str ''disk full'') (snd (build_message example_uc example_env)) \<and>
   sublist (str ''prod'') (snd (build_message example_uc example_env)) \<and>
   fst (build_message example_uc (example_env(str ''OMD_SITE'' := None,
          str ''NOTIFY_SHORTDATETIME'' := None))) =
     fst (build_message example_uc example_env)"
  using html_carries_plain_text_data [of example_uc example_env]
  by (simp add: Let_def example_context)

section \<open>Properties of the percent-encoding\<close>

lemma utf8_encode_cp_bytes: "utf8_encode_cp c = Some bs \<Longrightarrow> b \<in> set bs \<Longrightarrow> b < 256"
  by (auto simp: utf8_encode_cp_def split: if_splits)

lemma utf8_encode_bytes: "utf8_encode s = Some bs \<Longrightarrow> b \<in> set bs \<Longrightarrow> b < 256"
proof (induction s arbitrary: bs)
  case Nil
  then show ?case by simp
next
  case (Cons c cs)
  then show ?case
    by (auto split: option.splits dest: utf8_encode_cp_bytes)
qed

text \<open>
  \<open>quote\<close> raises exactly on the strings that hold a surrogate code point, and
  returns on every other string.
\<close>

lemma utf8_encode_None_iff:
  "utf8_encode s = None \<longleftrightarrow> (\<exists>c \<in> set s. 0xD800 \<le> c \<and> c \<le> 0xDFFF)"
proof (induction s)
  case Nil
  then show ?case by simp
next
  case (Cons c cs)
  have "utf8_encode_cp c = None \<longleftrightarrow> 0xD800 \<le> c \<and> c \<le> 0xDFFF"
    by (simp add: utf8_encode_cp_def)
  with Cons show ?case
    by (auto split: option.splits)
qed

lemma quote_raises_iff:
  "quote s safe = Inl UnicodeEncodeError \<longleftrightarrow> (\<exists>c \<in> set s. 0xD800 \<le> c \<and> c \<le> 0xDFFF)"
  using utf8_encode_None_iff [of s] by (auto simp: quote_def split: option.splits)

lemma quote_returns:
  "\<forall>c \<in> set s. \<not> (0xD800 \<le> c \<and> c \<le> 0xDFFF) \<Longrightarrow> \<exists>e. quote s safe = Inr e"
  using utf8_encode_None_iff [of s] by (auto simp: quote_def split: option.splits)

lemma hex_upper_safe: "d < 16 \<Longrightarrow> always_safe (hex_upper d)"
  by (auto simp: hex_upper_def always_safe_def)

lemma quote_byte_chars:
  "b < 256 \<Longrightarrow> c \<in> set (quote_byte [] b) \<Longrightarrow> always_safe c \<or> c = 37"
  by (auto simp: quote_byte_def hex_upper_safe split: if_splits)

lemma quote_chars:
  assumes "quote s [] = Inr e" and "c \<in> set e"
  shows "always_safe c \<or> c = 37"
proof -
  from assms(1) obtain bs where bs: "utf8_encode s = Some bs"
    and e: "e = concat (map (quote_byte []) bs)"
    by (auto simp: quote_def split: option.splits)
  from assms(2) e obtain b where "b \<in> set bs" and "c \<in> set (quote_byte [] b)"
    by auto
  with bs show ?thesis
    using utf8_encode_bytes quote_byte_chars by blast
qed

lemma quote_example:
  "quote (str ''!abc123:example.org'') [] = Inr (str ''%21abc123%3Aexample.org'')"
  by (simp add: quote_def utf8_encode_cp_def quote_byte_def always_safe_def hex_upper_def
      str_def)

lemma quote_surrogate: "quote [0xDCFF] [] = Inl UnicodeEncodeError"
  by (simp add: quote_def utf8_encode_cp_def)

section \<open>Properties of the transaction identifier\<close>

lemma hex_lower_is_hex: "d < 16 \<Longrightarrow> is_hex_lower (hex_lower d)"
  by (auto simp: hex_lower_def is_hex_lower_def)

lemma hex_lower_inj: "d < 16 \<Longrightarrow> d' < 16 \<Longrightarrow> hex_lower d = hex_lower d' \<Longrightarrow> d = d'"
  by (auto simp: hex_lower_def split: if_splits)

lemma hex2_inj:
  assumes "b < 256" "b' < 256" "hex2 b = hex2 b'"
  shows "b = b'"
proof -
  from assms have "b div 16 = b' div 16" and "b mod 16 = b' mod 16"
    by (auto simp: hex2_def intro!: hex_lower_inj)
  then show ?thesis
    by (metis div_mult_mod_eq)
qed

lemma length_16:
  "length (xs :: nat list) = 16 \<Longrightarrow>
     \<exists>b0 b1 b2 b3 b4 b5 b6 b7 b8 b9 b10 b11 b12 b13 b14 b15.
       xs = [b0, b1, b2, b3, b4, b5, b6, b7, b8, b9, b10, b11, b12, b13, b14, b15]"
  by (simp add: numeral_eq_Suc length_Suc_conv) blast

lemma list_update_Cons_numeral:
  "(x # xs)[numeral v := y] = x # xs[numeral v - 1 := y]"
  by (simp add: numeral_eq_Suc)

lemma uuid4_bytes:
  "uuid4 [b0, b1, b2, b3, b4, b5, b6, b7, b8, b9, b10, b11, b12, b13, b14, b15] =
     [b0, b1, b2, b3, b4, b5, 0x40 + b6 mod 16, b7, 0x80 + b8 mod 64, b9, b10, b11, b12, b13, b14, b15]"
  by (simp add: uuid4_def list_update_Cons_numeral)

lemma uuid_str_bytes:
  "uuid_str [u0, u1, u2, u3, u4, u5, u6, u7, u8, u9, u10, u11, u12, u13, u14, u15] =
     hex2 u0 @ hex2 u1 @ hex2 u2 @ hex2 u3 @ [45] @ hex2 u4 @ hex2 u5 @ [45]
       @ hex2 u6 @ hex2 u7 @ [45] @ hex2 u8 @ hex2 u9 @ [45]
       @ hex2 u10 @ hex2 u11 @ hex2 u12 @ hex2 u13 @ hex2 u14 @ hex2 u15"
  by (simp add: uuid_str_def hex2_def Let_def str_def)

lemma length_hex2: "length (hex2 b) = 2"
  by (simp add: hex2_def)

lemma hex2_is_hex: "b < 256 \<Longrightarrow> list_all is_hex_lower (hex2 b)"
  by (simp add: hex2_def hex_lower_is_hex)

lemma version_byte:
  fixes y :: nat
  assumes "y < 16"
  shows "(0x40 + y) div 16 = 4" and "(0x40 + y) mod 16 = y"
proof -
  from assms show "(0x40 + y) div 16 = 4"
    by arith
  have "0x40 + y = y + 16 * 4"
    by simp
  then have "(0x40 + y) mod 16 = y mod 16"
    by (simp only: mod_mult_self2)
  with assms show "(0x40 + y) mod 16 = y"
    by simp
qed

lemma hex2_version: "hex2 (0x40 + x mod 16) = [52, hex_lower (x mod 16)]"
proof -
  have "x mod 16 < 16"
    by simp
  then show ?thesis
    by (simp add: hex2_def hex_lower_def version_byte)
qed

lemma variant_byte:
  fixes y :: nat
  assumes "y < 64"
  shows "(0x80 + y) div 16 \<in> {8, 9, 10, 11}" and "(0x80 + y) mod 16 = y mod 16"
proof -
  from assms have "(0x80 + y) div 16 = 8 + y div 16" and "y div 16 < 4"
    by arith+
  then show "(0x80 + y) div 16 \<in> {8, 9, 10, 11}"
    by auto
  have "0x80 + y = y + 16 * 8"
    by simp
  then show "(0x80 + y) mod 16 = y mod 16"
    by (simp only: mod_mult_self2)
qed

lemma hex2_variant:
  "\<exists>v \<in> {56, 57, 97, 98}. hex2 (0x80 + x mod 64) = [v, hex_lower (x mod 16)]"
proof -
  have y: "x mod 64 < 64"
    by simp
  have "x mod 64 mod 16 = x mod 16"
    by (simp add: mod_mod_cancel)
  with variant_byte(2) [OF y] have m: "(0x80 + x mod 64) mod 16 = x mod 16"
    by simp
  from variant_byte(1) [OF y]
  have "hex_lower ((0x80 + x mod 64) div 16) \<in> {56, 57, 97, 98}"
    by (auto simp: hex_lower_def)
  with m show ?thesis
    by (simp add: hex2_def)
qed

lemma uuid4_well_formed:
  assumes "length rnd = 16" and "\<forall>b \<in> set rnd. b < 256"
  shows "length (uuid4 rnd) = 16 \<and> (\<forall>b \<in> set (uuid4 rnd). b < 256)"
proof -
  have "set (uuid4 rnd) \<subseteq> insert (0x80 + rnd ! 8 mod 64) (insert (0x40 + rnd ! 6 mod 16) (set rnd))"
    unfolding uuid4_def
    by (meson insert_mono order_trans set_update_subset_insert)
  moreover have "rnd ! 8 mod 64 < 64" and "rnd ! 6 mod 16 < 16"
    by simp_all
  then have "0x80 + rnd ! 8 mod 64 < 256" and "0x40 + rnd ! 6 mod 16 < 256"
    by arith+
  ultimately show ?thesis
    using assms by (auto simp: uuid4_def)
qed

lemma uuid_str_inj:
  assumes "length u = 16" and "length u' = 16"
    and "\<forall>b \<in> set u. b < 256" and "\<forall>b \<in> set u'. b < 256"
    and "uuid_str u = uuid_str u'"
  shows "u = u'"
proof -
  obtain a0 a1 a2 a3 a4 a5 a6 a7 a8 a9 a10 a11 a12 a13 a14 a15
    where u: "u = [a0, a1, a2, a3, a4, a5, a6, a7, a8, a9, a10, a11, a12, a13, a14, a15]"
    using length_16 [OF assms(1)] by blast
  obtain c0 c1 c2 c3 c4 c5 c6 c7 c8 c9 c10 c11 c12 c13 c14 c15
    where u': "u' = [c0, c1, c2, c3, c4, c5, c6, c7, c8, c9, c10, c11, c12, c13, c14, c15]"
    using length_16 [OF assms(2)] by blast
  from assms(5) have
    "hex2 a0 = hex2 c0 \<and> hex2 a1 = hex2 c1 \<and> hex2 a2 = hex2 c2 \<and> hex2 a3 = hex2 c3 \<and>
     hex2 a4 = hex2 c4 \<and> hex2 a5 = hex2 c5 \<and> hex2 a6 = hex2 c6 \<and> hex2 a7 = hex2 c7 \<and>
     hex2 a8 = hex2 c8 \<and> hex2 a9 = hex2 c9 \<and> hex2 a10 = hex2 c10 \<and> hex2 a11 = hex2 c11 \<and>
     hex2 a12 = hex2 c12 \<and> hex2 a13 = hex2 c13 \<and> hex2 a14 = hex2 c14 \<and> hex2 a15 = hex2 c15"
    unfolding u u' uuid_str_bytes by (simp add: length_hex2)
  moreover from assms(3,4) have
    "a0 < 256 \<and> a1 < 256 \<and> a2 < 256 \<and> a3 < 256 \<and> a4 < 256 \<and> a5 < 256 \<and> a6 < 256 \<and>
     a7 < 256 \<and> a8 < 256 \<and> a9 < 256 \<and> a10 < 256 \<and> a11 < 256 \<and> a12 < 256 \<and> a13 < 256 \<and>
     a14 < 256 \<and> a15 < 256"
    "c0 < 256 \<and> c1 < 256 \<and> c2 < 256 \<and> c3 < 256 \<and> c4 < 256 \<and> c5 < 256 \<and> c6 < 256 \<and>
     c7 < 256 \<and> c8 < 256 \<and> c9 < 256 \<and> c10 < 256 \<and> c11 < 256 \<and> c12 < 256 \<and> c13 < 256 \<and>
     c14 < 256 \<and> c15 < 256"
    unfolding u u' by simp_all
  ultimately show ?thesis
    unfolding u u' by (auto intro: hex2_inj)
qed

lemma uuid4_str_canonical:
  assumes "length rnd = 16" and "\<forall>b \<in> set rnd. b < 256"
  shows "canonical_uuid4 (uuid_str (uuid4 rnd))"
proof -
  obtain b0 b1 b2 b3 b4 b5 b6 b7 b8 b9 b10 b11 b12 b13 b14 b15
    where rnd: "rnd = [b0, b1, b2, b3, b4, b5, b6, b7, b8, b9, b10, b11, b12, b13, b14, b15]"
    using length_16 [OF assms(1)] by blast
  obtain v where v: "v \<in> {56, 57, 97, 98}"
    and variant: "hex2 (0x80 + b8 mod 64) = [v, hex_lower (b8 mod 16)]"
    using hex2_variant by blast
  from assms(2) have hex:
    "list_all is_hex_lower (hex2 b0)" "list_all is_hex_lower (hex2 b1)"
    "list_all is_hex_lower (hex2 b2)" "list_all is_hex_lower (hex2 b3)"
    "list_all is_hex_lower (hex2 b4)" "list_all is_hex_lower (hex2 b5)"
    "list_all is_hex_lower (hex2 b7)" "list_all is_hex_lower (hex2 b9)"
    "list_all is_hex_lower (hex2 b10)" "list_all is_hex_lower (hex2 b11)"
    "list_all is_hex_lower (hex2 b12)" "list_all is_hex_lower (hex2 b13)"
    "list_all is_hex_lower (hex2 b14)" "list_all is_hex_lower (hex2 b15)"
    unfolding rnd by (simp_all add: hex2_is_hex)
  have low: "is_hex_lower (hex_lower (b6 mod 16))" "is_hex_lower (hex_lower (b8 mod 16))"
    by (simp_all add: hex_lower_is_hex)
  have shape: "uuid_str (uuid4 rnd) =
      hex2 b0 @ hex2 b1 @ hex2 b2 @ hex2 b3 @ [45] @ hex2 b4 @ hex2 b5 @ [45]
        @ [52, hex_lower (b6 mod 16)] @ hex2 b7 @ [45] @ [v, hex_lower (b8 mod 16)] @ hex2 b9
        @ [45] @ hex2 b10 @ hex2 b11 @ hex2 b12 @ hex2 b13 @ hex2 b14 @ hex2 b15"
    unfolding rnd uuid4_bytes uuid_str_bytes hex2_version variant ..
  show ?thesis
    unfolding canonical_uuid4_def shape using hex low v
    by (simp add: hex2_def)
qed

section \<open>The run of the script\<close>

text \<open>
  \<open>main\<close> checks the three parameters in order and stops at the first that is absent
  or empty; with all three present it builds the message and sends it.
\<close>

lemma main_unfold:
  "main uc rnd put env =
     (if not_value (env (str ''NOTIFY_PARAMETER_1'')) then
        (SystemExit 2,
         \<lparr>stdout = [],
          stderr = [str ''ERROR: Missing required environment variable: ''
                      @ str ''NOTIFY_PARAMETER_1''],
          put_calls = []\<rparr>)
      else if not_value (env (str ''NOTIFY_PARAMETER_2'')) then
        (SystemExit 2,
         \<lparr>stdout = [],
          stderr = [str ''ERROR: Missing required environment variable: ''
                      @ str ''NOTIFY_PARAMETER_2''],
          put_calls = []\<rparr>)
      else if not_value (env (str ''NOTIFY_PARAMETER_3'')) then
        (SystemExit 2,
         \<lparr>stdout = [],
          stderr = [str ''ERROR: Missing required environment variable: ''
                      @ str ''NOTIFY_PARAMETER_3''],
          put_calls = []\<rparr>)
      else
        (case send_to_matrix rnd put (the (env (str ''NOTIFY_PARAMETER_1'')))
                (the (env (str ''NOTIFY_PARAMETER_2''))) (the (env (str ''NOTIFY_PARAMETER_3'')))
                (fst (build_message uc env)) (snd (build_message uc env))
                \<lparr>stdout = [], stderr = [], put_calls = []\<rparr> of
           (Inl e, w) \<Rightarrow> (e, w)
         | (Inr success, w) \<Rightarrow> (if success then SystemExit 0 else SystemExit 1, w)))"
  by (simp add: main_def get_required_env_def Let_def print_err_def EXIT_FAILED_def
      EXIT_SUCCESS_def EXIT_RETRY_def split: prod.splits sum.splits)

lemma send_to_matrix_unencodable:
  "quote room_id [] = Inl e \<Longrightarrow>
     send_to_matrix rnd put homeserver access_token room_id plain_text html_text w = (Inl e, w)"
  by (simp add: send_to_matrix_def)

lemma send_to_matrix_unfold:
  assumes "quote room_id [] = Inr encoded_room_id"
  shows "send_to_matrix rnd put homeserver access_token room_id plain_text html_text w =
     (let request =
            \<lparr>url = str ''https://'' @ homeserver @ str ''/_matrix/client/v3/rooms/''
                    @ encoded_room_id @ str ''/send/m.room.message/'' @ uuid_str (uuid4 rnd),
             json = [(str ''msgtype'', str ''m.text''),
                     (str ''body'', plain_text),
                     (str ''format'', str ''org.matrix.custom.html''),
                     (str ''formatted_body'', html_text)],
             headers = [(str ''Content-Type'', str ''application/json''),
                        (str ''Authorization'', str ''Bearer '' @ access_token)],
             timeout = 15\<rparr>;
          w' = w\<lparr>put_calls := put_calls w @ [request]\<rparr>
      in case put request of
           Response status_code http_error_msg \<Rightarrow>
             if 400 \<le> status_code \<and> status_code < 600 then
               (Inr False,
                w'\<lparr>stderr := stderr w' @ [str ''ERROR: HTTP error: '' @ http_error_msg]\<rparr>)
             else
               (Inr True,
                w'\<lparr>stdout := stdout w' @ [str ''OK: Message sent successfully'']\<rparr>)
         | Raised e \<Rightarrow> handle_request_error e w')"
  using assms
  by (auto simp: send_to_matrix_def Let_def raise_for_status_def handle_request_error_def
      print_err_def print_out_def REQUEST_TIMEOUT_def split: put_result.splits)

lemma put_calls_handle_request_error:
  "put_calls (snd (handle_request_error e w)) = put_calls w"
  by (simp add: handle_request_error_def print_err_def split: exception.splits)

lemma send_to_matrix_put_calls:
  assumes "quote room_id [] = Inr encoded_room_id"
  shows "put_calls (snd (send_to_matrix rnd put homeserver access_token room_id plain_text
                      html_text w)) =
     put_calls w @
     [\<lparr>url = str ''https://'' @ homeserver @ str ''/_matrix/client/v3/rooms/''
               @ encoded_room_id @ str ''/send/m.room.message/'' @ uuid_str (uuid4 rnd),
       json = [(str ''msgtype'', str ''m.text''),
               (str ''body'', plain_text),
               (str ''format'', str ''org.matrix.custom.html''),
               (str ''formatted_body'', html_text)],
       headers = [(str ''Content-Type'', str ''application/json''),
                  (str ''Authorization'', str ''Bearer '' @ access_token)],
       timeout = 15\<rparr>]"
  by (simp add: send_to_matrix_unfold [OF assms] Let_def put_calls_handle_request_error
      split: put_result.splits)

lemma main_valid:
  assumes "env (str ''NOTIFY_PARAMETER_1'') = Some homeserver" and "homeserver \<noteq> []"
    and "env (str ''NOTIFY_PARAMETER_2'') = Some access_token" and "access_token \<noteq> []"
    and "env (str ''NOTIFY_PARAMETER_3'') = Some room_id" and "room_id \<noteq> []"
  shows "main uc rnd put env =
     (case send_to_matrix rnd put homeserver access_token room_id
             (fst (build_message uc env)) (snd (build_message uc env))
             \<lparr>stdout = [], stderr = [], put_calls = []\<rparr> of
        (Inl e, w) \<Rightarrow> (e, w)
      | (Inr success, w) \<Rightarrow> (if success then SystemExit 0 else SystemExit 1, w))"
  using assms by (simp add: main_unfold not_value_def)

lemma not_value_None: "not_value None"
  by (simp add: not_value_def)

lemma example_parameters:
  "example_env (str ''NOTIFY_PARAMETER_1'') = Some (str ''matrix.example.org'')"
  "example_env (str ''NOTIFY_PARAMETER_2'') = Some (str ''secret'')"
  "example_env (str ''NOTIFY_PARAMETER_3'') = Some (str ''!abc123:example.org'')"
  by (simp_all add: example_env_def str_def)

lemma parameter_names_distinct:
  "str ''NOTIFY_PARAMETER_1'' \<noteq> str ''NOTIFY_PARAMETER_2''"
  "str ''NOTIFY_PARAMETER_1'' \<noteq> str ''NOTIFY_PARAMETER_3''"
  "str ''NOTIFY_PARAMETER_2'' \<noteq> str ''NOTIFY_PARAMETER_3''"
  "str ''NOTIFY_PARAMETER_2'' \<noteq> str ''NOTIFY_PARAMETER_1''"
  "str ''NOTIFY_PARAMETER_3'' \<noteq> str ''NOTIFY_PARAMETER_1''"
  "str ''NOTIFY_PARAMETER_3'' \<noteq> str ''NOTIFY_PARAMETER_2''"
  by (simp_all add: str_def)

section \<open>Missing configuration\<close>

text \<open>
  C3: if one of the three required parameters is absent from the environment, the run
  ends with exit code 2, its only output is one line on standard error that names the
  first parameter (in the order 1, 2, 3) whose value is absent or empty, and
  \<open>requests.put\<close> is never called.
\<close>

theorem missing_parameter_exits_2:
  assumes "env (str ''NOTIFY_PARAMETER_1'') = None \<or>
           env (str ''NOTIFY_PARAMETER_2'') = None \<or>
           env (str ''NOTIFY_PARAMETER_3'') = None"
  shows "main uc rnd put env =
     (SystemExit 2,
      \<lparr>stdout = [],
       stderr =
         [str ''ERROR: Missing required environment variable: '' @
          (if not_value (env (str ''NOTIFY_PARAMETER_1'')) then str ''NOTIFY_PARAMETER_1''
           else if not_value (env (str ''NOTIFY_PARAMETER_2'')) then str ''NOTIFY_PARAMETER_2''
           else str ''NOTIFY_PARAMETER_3'')],
       put_calls = []\<rparr>)"
proof -
  from assms have "not_value (env (str ''NOTIFY_PARAMETER_1'')) \<or>
      not_value (env (str ''NOTIFY_PARAMETER_2'')) \<or>
      not_value (env (str ''NOTIFY_PARAMETER_3''))"
    by (auto simp: not_value_def)
  then show ?thesis
    by (auto simp: main_unfold)
qed

theorem missing_parameter_exits_2_witness:
  "main example_uc example_rnd (responds 200 [])
     (example_env(str ''NOTIFY_PARAMETER_2'' := None)) =
     (SystemExit 2,
      \<lparr>stdout = [],
       stderr = [str ''ERROR: Missing required environment variable: NOTIFY_PARAMETER_2''],
       put_calls = []\<rparr>)"
proof -
  let ?env = "example_env(str ''NOTIFY_PARAMETER_2'' := None)"
  have absent: "?env (str ''NOTIFY_PARAMETER_1'') = None \<or>
      ?env (str ''NOTIFY_PARAMETER_2'') = None \<or> ?env (str ''NOTIFY_PARAMETER_3'') = None"
    by simp
  have first: "\<not> not_value (?env (str ''NOTIFY_PARAMETER_1''))"
    by (simp add: example_parameters parameter_names_distinct not_value_def)
      (simp add: str_def)
  have second: "not_value (?env (str ''NOTIFY_PARAMETER_2''))"
    by (simp add: not_value_def)
  have "main example_uc example_rnd (responds 200 []) ?env =
     (SystemExit 2,
      \<lparr>stdout = [],
       stderr = [str ''ERROR: Missing required environment variable: ''
                   @ str ''NOTIFY_PARAMETER_2''],
       put_calls = []\<rparr>)"
    using missing_parameter_exits_2 [of ?env example_uc example_rnd
        "responds 200 []"] absent first second
    by simp
  then show ?thesis
    by (simp add: str_def)
qed

text \<open>
  C10: a required parameter that is present with the empty string as its value is
  treated as an absent one: the run is the same as the run of the environment without
  it, and it ends with exit code 2, the missing-variable line on standard error and no
  call of \<open>requests.put\<close>.
\<close>

theorem empty_parameter_like_absent:
  assumes "p \<in> {str ''NOTIFY_PARAMETER_1'', str ''NOTIFY_PARAMETER_2'',
                 str ''NOTIFY_PARAMETER_3''}"
    and "env p = Some []"
  shows "main uc rnd put env = main uc rnd put (env(p := None)) \<and>
     main uc rnd put env =
       (SystemExit 2,
        \<lparr>stdout = [],
         stderr =
           [str ''ERROR: Missing required environment variable: '' @
            (if not_value (env (str ''NOTIFY_PARAMETER_1'')) then str ''NOTIFY_PARAMETER_1''
             else if not_value (env (str ''NOTIFY_PARAMETER_2''))
               then str ''NOTIFY_PARAMETER_2''
             else str ''NOTIFY_PARAMETER_3'')],
         put_calls = []\<rparr>)"
proof -
  have missing: "not_value (env p)"
    using assms(2) by (simp add: not_value_def)
  have "main uc rnd put env = main uc rnd put (env(p := None))"
    using assms(1) missing
    by (auto simp: main_unfold parameter_names_distinct not_value_None)
  moreover have "main uc rnd put env =
       (SystemExit 2,
        \<lparr>stdout = [],
         stderr =
           [str ''ERROR: Missing required environment variable: '' @
            (if not_value (env (str ''NOTIFY_PARAMETER_1'')) then str ''NOTIFY_PARAMETER_1''
             else if not_value (env (str ''NOTIFY_PARAMETER_2''))
               then str ''NOTIFY_PARAMETER_2''
             else str ''NOTIFY_PARAMETER_3'')],
         put_calls = []\<rparr>)"
    using assms(1) missing by (auto simp: main_unfold)
  ultimately show ?thesis ..
qed

theorem empty_parameter_like_absent_witness:
  "main example_uc example_rnd (responds 200 [])
     (example_env(str ''NOTIFY_PARAMETER_2'' \<mapsto> [])) =
   main example_uc example_rnd (responds 200 [])
     (example_env(str ''NOTIFY_PARAMETER_2'' := None)) \<and>
   main example_uc example_rnd (responds 200 [])
     (example_env(str ''NOTIFY_PARAMETER_2'' \<mapsto> [])) =
     (SystemExit 2,
      \<lparr>stdout = [],
       stderr = [str ''ERROR: Missing required environment variable: NOTIFY_PARAMETER_2''],
       put_calls = []\<rparr>)"
proof -
  let ?env = "example_env(str ''NOTIFY_PARAMETER_2'' \<mapsto> [])"
  have p: "str ''NOTIFY_PARAMETER_2'' \<in> {str ''NOTIFY_PARAMETER_1'',
      str ''NOTIFY_PARAMETER_2'', str ''NOTIFY_PARAMETER_3''}"
    by simp
  have empty: "?env (str ''NOTIFY_PARAMETER_2'') = Some []"
    by simp
  have first: "\<not> not_value (?env (str ''NOTIFY_PARAMETER_1''))"
    by (simp add: example_parameters parameter_names_distinct not_value_def)
      (simp add: str_def)
  have second: "not_value (?env (str ''NOTIFY_PARAMETER_2''))"
    by (simp add: not_value_def)
  have concl: "main example_uc example_rnd (responds 200 []) ?env =
      main example_uc example_rnd (responds 200 []) (?env(str ''NOTIFY_PARAMETER_2'' := None)) \<and>
     main example_uc example_rnd (responds 200 []) ?env =
     (SystemExit 2,
      \<lparr>stdout = [],
       stderr =
         [str ''ERROR: Missing required environment variable: '' @
          (if not_value (?env (str ''NOTIFY_PARAMETER_1'')) then str ''NOTIFY_PARAMETER_1''
           else if not_value (?env (str ''NOTIFY_PARAMETER_2''))
             then str ''NOTIFY_PARAMETER_2''
           else str ''NOTIFY_PARAMETER_3'')],
       put_calls = []\<rparr>)"
    by (rule empty_parameter_like_absent [OF p]) (rule empty)
  from concl have same: "main example_uc example_rnd (responds 200 []) ?env =
      main example_uc example_rnd (responds 200 [])
        (example_env(str ''NOTIFY_PARAMETER_2'' := None))"
    by simp
  from concl have "main example_uc example_rnd (responds 200 []) ?env =
     (SystemExit 2,
      \<lparr>stdout = [],
       stderr =
         [str ''ERROR: Missing required environment variable: '' @
          (if not_value (?env (str ''NOTIFY_PARAMETER_1'')) then str ''NOTIFY_PARAMETER_1''
           else if not_value (?env (str ''NOTIFY_PARAMETER_2''))
             then str ''NOTIFY_PARAMETER_2''
           else str ''NOTIFY_PARAMETER_3'')],
       put_calls = []\<rparr>)"
    by (rule conjunct2)
  with first second have exits:
    "main example_uc example_rnd (responds 200 []) ?env =
     (SystemExit 2,
      \<lparr>stdout = [],
       stderr = [str ''ERROR: Missing required environment variable: NOTIFY_PARAMETER_2''],
       put_calls = []\<rparr>)"
    by (simp add: str_def)
  show ?thesis
    by (rule conjI [OF same exits])
qed

lemma example_parameters_not_Nil:
  "str ''matrix.example.org'' \<noteq> []" "str ''secret'' \<noteq> []"
  "str ''!abc123:example.org'' \<noteq> []"
  by (simp_all add: str_def)

lemma main_valid_quote:
  assumes "env (str ''NOTIFY_PARAMETER_1'') = Some homeserver" and "homeserver \<noteq> []"
    and "env (str ''NOTIFY_PARAMETER_2'') = Some access_token" and "access_token \<noteq> []"
    and "env (str ''NOTIFY_PARAMETER_3'') = Some room_id" and "room_id \<noteq> []"
    and "quote room_id [] = Inr encoded_room_id"
  shows "main uc rnd put env =
     (let request =
            \<lparr>url = str ''https://'' @ homeserver @ str ''/_matrix/client/v3/rooms/''
                    @ encoded_room_id @ str ''/send/m.room.message/'' @ uuid_str (uuid4 rnd),
             json = [(str ''msgtype'', str ''m.text''),
                     (str ''body'', fst (build_message uc env)),
                     (str ''format'', str ''org.matrix.custom.html''),
                     (str ''formatted_body'', snd (build_message uc env))],
             headers = [(str ''Content-Type'', str ''application/json''),
                        (str ''Authorization'', str ''Bearer '' @ access_token)],
             timeout = 15\<rparr>
      in case put request of
           Response status_code http_error_msg \<Rightarrow>
             if 400 \<le> status_code \<and> status_code < 600 then
               (SystemExit 1,
                \<lparr>stdout = [], stderr = [str ''ERROR: HTTP error: '' @ http_error_msg],
                 put_calls = [request]\<rparr>)
             else
               (SystemExit 0,
                \<lparr>stdout = [str ''OK: Message sent successfully''], stderr = [],
                 put_calls = [request]\<rparr>)
         | Raised e \<Rightarrow>
             (case e of
                Timeout err \<Rightarrow>
                  (SystemExit 1,
                   \<lparr>stdout = [], stderr = [str ''ERROR: Request timed out''],
                    put_calls = [request]\<rparr>)
              | ConnectionError err \<Rightarrow>
                  (SystemExit 1,
                   \<lparr>stdout = [],
                    stderr = [str ''ERROR: Could not connect to server: '' @ err],
                    put_calls = [request]\<rparr>)
              | HTTPError err \<Rightarrow>
                  (SystemExit 1,
                   \<lparr>stdout = [], stderr = [str ''ERROR: HTTP error: '' @ err],
                    put_calls = [request]\<rparr>)
              | RequestException err \<Rightarrow>
                  (SystemExit 1,
                   \<lparr>stdout = [], stderr = [str ''ERROR: Request failed: '' @ err],
                    put_calls = [request]\<rparr>)
              | _ \<Rightarrow> (e, \<lparr>stdout = [], stderr = [], put_calls = [request]\<rparr>)))"
  by (auto simp: main_valid [OF assms(1-6)] send_to_matrix_unfold [OF assms(7)] Let_def
      handle_request_error_def print_err_def split: put_result.splits exception.splits)

section \<open>Unhandled exceptions\<close>

text \<open>
  C2 does not hold of the code: \<open>requests.utils.quote\<close> is called before the
  \<open>try\<close> block of \<open>send_to_matrix\<close>, so the \<open>UnicodeEncodeError\<close> it raises on a
  room identifier with a surrogate code point (the value \<open>os.environ\<close> gives for an
  environment variable that holds the byte \<open>0xFF\<close>) is caught nowhere: the run ends
  with that exception, not with \<open>SystemExit\<close>, and without any line of output.
\<close>

theorem unencodable_room_id_is_unhandled:
  "main uc rnd put example_bad_room_env =
     (UnicodeEncodeError, \<lparr>stdout = [], stderr = [], put_calls = []\<rparr>)"
proof -
  have "example_bad_room_env (str ''NOTIFY_PARAMETER_1'') = Some (str ''matrix.example.org'')"
    and "example_bad_room_env (str ''NOTIFY_PARAMETER_2'') = Some (str ''secret'')"
    and "example_bad_room_env (str ''NOTIFY_PARAMETER_3'') = Some [0xDCFF]"
    by (simp_all add: example_bad_room_env_def parameter_names_distinct)
  then have "main uc rnd put example_bad_room_env =
     (case send_to_matrix rnd put (str ''matrix.example.org'') (str ''secret'') [0xDCFF]
             (fst (build_message uc example_bad_room_env))
             (snd (build_message uc example_bad_room_env))
             \<lparr>stdout = [], stderr = [], put_calls = []\<rparr> of
        (Inl e, w) \<Rightarrow> (e, w)
      | (Inr success, w) \<Rightarrow> (if success then SystemExit 0 else SystemExit 1, w))"
    by (simp add: main_unfold not_value_def example_parameters_not_Nil)
  then show ?thesis
    by (simp add: send_to_matrix_unencodable [OF quote_surrogate])
qed

text \<open>
  What holds instead: when the room identifier has no surrogate code point and the call
  of \<open>requests.put\<close> returns a response or raises an exception of the
  \<open>RequestException\<close> hierarchy, the run ends with exit code 0, 1 or 2.
\<close>

lemma run_ends_with_exit_code:
  assumes "\<forall>c \<in> set (the (env (str ''NOTIFY_PARAMETER_3''))). \<not> (0xD800 \<le> c \<and> c \<le> 0xDFFF)"
    and "\<forall>request e. put request = Raised e \<longrightarrow> is_request_exception e"
  shows "fst (main uc rnd put env) \<in> {SystemExit 0, SystemExit 1, SystemExit 2}"
proof (cases "not_value (env (str ''NOTIFY_PARAMETER_1'')) \<or>
    not_value (env (str ''NOTIFY_PARAMETER_2'')) \<or> not_value (env (str ''NOTIFY_PARAMETER_3''))")
  case True
  then show ?thesis
    by (auto simp: main_unfold)
next
  case False
  then obtain homeserver access_token room_id
    where p: "env (str ''NOTIFY_PARAMETER_1'') = Some homeserver" "homeserver \<noteq> []"
      "env (str ''NOTIFY_PARAMETER_2'') = Some access_token" "access_token \<noteq> []"
      "env (str ''NOTIFY_PARAMETER_3'') = Some room_id" "room_id \<noteq> []"
    by (auto simp: not_value_def)
  with assms(1) obtain encoded_room_id where q: "quote room_id [] = Inr encoded_room_id"
    using quote_returns [of room_id "[]"] by auto
  let ?request =
    "\<lparr>url = str ''https://'' @ homeserver @ str ''/_matrix/client/v3/rooms/''
             @ encoded_room_id @ str ''/send/m.room.message/'' @ uuid_str (uuid4 rnd),
      json = [(str ''msgtype'', str ''m.text''),
              (str ''body'', fst (build_message uc env)),
              (str ''format'', str ''org.matrix.custom.html''),
              (str ''formatted_body'', snd (build_message uc env))],
      headers = [(str ''Content-Type'', str ''application/json''),
                 (str ''Authorization'', str ''Bearer '' @ access_token)],
      timeout = 15\<rparr>"
  show ?thesis
  proof (cases "put ?request")
    case (Response status_code http_error_msg)
    then show ?thesis
      by (simp add: main_valid_quote [OF p q] Let_def)
  next
    case (Raised e)
    with assms(2) have "is_request_exception e"
      by blast
    with Raised show ?thesis
      by (cases e) (simp_all add: main_valid_quote [OF p q] Let_def)
  qed
qed

section \<open>Classification of the delivery outcome\<close>

text \<open>
  C4, as the claim states it, fails: a response with the status 304, which is not a 2xx
  status, is not classified as retryable. \<open>raise_for_status\<close> raises for the
  statuses 400 to 599 only, so the run prints the success line and ends with exit code 0.
\<close>

theorem status_304_exits_0:
  "fst (main example_uc example_rnd (responds 304 []) example_env) = SystemExit 0 \<and>
   stdout (snd (main example_uc example_rnd (responds 304 []) example_env)) =
     [str ''OK: Message sent successfully''] \<and>
   stderr (snd (main example_uc example_rnd (responds 304 []) example_env)) = []"
  by (simp add: main_valid_quote [OF example_parameters(1) example_parameters_not_Nil(1)
        example_parameters(2) example_parameters_not_Nil(2)
        example_parameters(3) example_parameters_not_Nil(3) quote_example] Let_def
      responds_def)

text \<open>
  C4, amended: in every run with the three parameters present and an encodable room
  identifier there is exactly one call of \<open>requests.put\<close>, and its answer decides
  the outcome: a response with a status outside 400 to 599 (every 2xx status among
  them) gives exit code 0 and the success line on standard output; a response with a
  status from 400 to 599, a timeout, a connection error, an HTTP error and any other
  request exception each give exit code 1 and one diagnostic line on standard error.
\<close>

theorem delivery_outcome_classification:
  assumes "env (str ''NOTIFY_PARAMETER_1'') = Some homeserver" and "homeserver \<noteq> []"
    and "env (str ''NOTIFY_PARAMETER_2'') = Some access_token" and "access_token \<noteq> []"
    and "env (str ''NOTIFY_PARAMETER_3'') = Some room_id" and "room_id \<noteq> []"
    and "quote room_id [] = Inr encoded_room_id"
  shows "\<exists>request.
     put_calls (snd (main uc rnd put env)) = [request] \<and>
     (case put request of
        Response status_code http_error_msg \<Rightarrow>
          if 400 \<le> status_code \<and> status_code < 600 then
            fst (main uc rnd put env) = SystemExit 1 \<and>
            stdout (snd (main uc rnd put env)) = [] \<and>
            stderr (snd (main uc rnd put env)) = [str ''ERROR: HTTP error: '' @ http_error_msg]
          else
            fst (main uc rnd put env) = SystemExit 0 \<and>
            stdout (snd (main uc rnd put env)) = [str ''OK: Message sent successfully''] \<and>
            stderr (snd (main uc rnd put env)) = []
      | Raised (Timeout err) \<Rightarrow>
          fst (main uc rnd put env) = SystemExit 1 \<and>
          stdout (snd (main uc rnd put env)) = [] \<and>
          stderr (snd (main uc rnd put env)) = [str ''ERROR: Request timed out'']
      | Raised (ConnectionError err) \<Rightarrow>
          fst (main uc rnd put env) = SystemExit 1 \<and>
          stdout (snd (main uc rnd put env)) = [] \<and>
          stderr (snd (main uc rnd put env)) =
            [str ''ERROR: Could not connect to server: '' @ err]
      | Raised (HTTPError err) \<Rightarrow>
          fst (main uc rnd put env) = SystemExit 1 \<and>
          stdout (snd (main uc rnd put env)) = [] \<and>
          stderr (snd (main uc rnd put env)) = [str ''ERROR: HTTP error: '' @ err]
      | Raised (RequestException err) \<Rightarrow>
          fst (main uc rnd put env) = SystemExit 1 \<and>
          stdout (snd (main uc rnd put env)) = [] \<and>
          stderr (snd (main uc rnd put env)) = [str ''ERROR: Request failed: '' @ err]
      | Raised _ \<Rightarrow> True)"
proof -
  let ?request =
    "\<lparr>url = str ''https://'' @ homeserver @ str ''/_matrix/client/v3/rooms/''
             @ encoded_room_id @ str ''/send/m.room.message/'' @ uuid_str (uuid4 rnd),
      json = [(str ''msgtype'', str ''m.text''),
              (str ''body'', fst (build_message uc env)),
              (str ''format'', str ''org.matrix.custom.html''),
              (str ''formatted_body'', snd (build_message uc env))],
      headers = [(str ''Content-Type'', str ''application/json''),
                 (str ''Authorization'', str ''Bearer '' @ access_token)],
      timeout = 15\<rparr>"
  note run = main_valid_quote [OF assms, of uc rnd put]
  have calls: "put_calls (snd (main uc rnd put env)) = [?request]"
    by (simp add: run Let_def split: put_result.splits exception.splits)
  have outcome:
    "case put ?request of
        Response status_code http_error_msg \<Rightarrow>
          if 400 \<le> status_code \<and> status_code < 600 then
            fst (main uc rnd put env) = SystemExit 1 \<and>
            stdout (snd (main uc rnd put env)) = [] \<and>
            stderr (snd (main uc rnd put env)) = [str ''ERROR: HTTP error: '' @ http_error_msg]
          else
            fst (main uc rnd put env) = SystemExit 0 \<and>
            stdout (snd (main uc rnd put env)) = [str ''OK: Message sent successfully''] \<and>
            stderr (snd (main uc rnd put env)) = []
      | Raised (Timeout err) \<Rightarrow>
          fst (main uc rnd put env) = SystemExit 1 \<and>
          stdout (snd (main uc rnd put env)) = [] \<and>
          stderr (snd (main uc rnd put env)) = [str ''ERROR: Request timed out'']
      | Raised (ConnectionError err) \<Rightarrow>
          fst (main uc rnd put env) = SystemExit 1 \<and>
          stdout (snd (main uc rnd put env)) = [] \<and>
          stderr (snd (main uc rnd put env)) =
            [str ''ERROR: Could not connect to server: '' @ err]
      | Raised (HTTPError err) \<Rightarrow>
          fst (main uc rnd put env) = SystemExit 1 \<and>
          stdout (snd (main uc rnd put env)) = [] \<and>
          stderr (snd (main uc rnd put env)) = [str ''ERROR: HTTP error: '' @ err]
      | Raised (RequestException err) \<Rightarrow>
          fst (main uc rnd put env) = SystemExit 1 \<and>
          stdout (snd (main uc rnd put env)) = [] \<and>
          stderr (snd (main uc rnd put env)) = [str ''ERROR: Request failed: '' @ err]
      | Raised _ \<Rightarrow> True"
    by (simp add: run Let_def split: put_result.splits exception.splits)
  from calls outcome show ?thesis
    by (intro exI [of _ ?request] conjI)
qed

theorem delivery_outcome_classification_witness:
  "fst (main example_uc example_rnd (responds 200 []) example_env) = SystemExit 0 \<and>
   stdout (snd (main example_uc example_rnd (responds 200 []) example_env)) =
     [str ''OK: Message sent successfully''] \<and>
   fst (main example_uc example_rnd
          (responds 500 (str ''500 Server Error'')) example_env) = SystemExit 1 \<and>
   stderr (snd (main example_uc example_rnd
          (responds 500 (str ''500 Server Error'')) example_env)) =
     [str ''ERROR: HTTP error: 500 Server Error''] \<and>
   fst (main example_uc example_rnd (raises (Timeout [])) example_env) =
     SystemExit 1 \<and>
   stderr (snd (main example_uc example_rnd (raises (Timeout [])) example_env)) =
     [str ''ERROR: Request timed out'']"
proof -
  note classified =
    delivery_outcome_classification [OF example_parameters(1) example_parameters_not_Nil(1)
      example_parameters(2) example_parameters_not_Nil(2)
      example_parameters(3) example_parameters_not_Nil(3) quote_example,
      of example_uc example_rnd]
  have ok: "fst (main example_uc example_rnd (responds 200 []) example_env) =
      SystemExit 0 \<and>
    stdout (snd (main example_uc example_rnd (responds 200 []) example_env)) =
      [str ''OK: Message sent successfully'']"
    using classified [of "responds 200 []"] by (auto simp: responds_def)
  have error: "fst (main example_uc example_rnd
          (responds 500 (str ''500 Server Error'')) example_env) = SystemExit 1 \<and>
    stderr (snd (main example_uc example_rnd
          (responds 500 (str ''500 Server Error'')) example_env)) =
      [str ''ERROR: HTTP error: '' @ str ''500 Server Error'']"
    using classified [of "responds 500 (str ''500 Server Error'')"]
    by (auto simp: responds_def)
  have timed_out:
    "fst (main example_uc example_rnd (raises (Timeout [])) example_env) =
      SystemExit 1 \<and>
    stderr (snd (main example_uc example_rnd (raises (Timeout [])) example_env)) =
      [str ''ERROR: Request timed out'']"
    using classified [of "raises (Timeout [])"] by (auto simp: raises_def)
  have "str ''ERROR: HTTP error: '' @ str ''500 Server Error'' =
      str ''ERROR: HTTP error: 500 Server Error''"
    by (simp add: str_def)
  with ok error timed_out show ?thesis
    by simp
qed

section \<open>The request\<close>

lemma not_safe_chars: "\<not> always_safe 33" "\<not> always_safe 58"
  by (simp_all add: always_safe_def)

lemma quote_byte_Nil:
  "quote_byte [] =
     (\<lambda>b. if always_safe b then [b] else [37, hex_upper (b div 16), hex_upper (b mod 16)])"
  by (rule ext) (simp add: quote_byte_def)

lemma quote_bytes:
  assumes "quote room_id [] = Inr encoded_room_id"
  shows "\<exists>bs. utf8_encode room_id = Some bs \<and>
     encoded_room_id =
       concat (map (\<lambda>b. if always_safe b then [b]
                          else [37, hex_upper (b div 16), hex_upper (b mod 16)]) bs)"
  using assms by (auto simp: quote_def quote_byte_Nil split: option.splits)

text \<open>
  C7: when the room identifier can be encoded, its encoding is the UTF-8 bytes of the
  identifier with every byte outside the unreserved set (letters, digits, \<^verbatim>\<open>-._~\<close>)
  replaced by \<^verbatim>\<open>%\<close> and two uppercase hexadecimal digits, so it consists of
  unreserved characters and \<^verbatim>\<open>%\<close> (code point 37) only; in particular it
  holds neither \<^verbatim>\<open>!\<close> (33) nor \<^verbatim>\<open>:\<close> (58). The encoding is the
  room segment of the URL that \<open>send_to_matrix\<close> passes to \<open>requests.put\<close>.
\<close>

theorem room_id_percent_encoded:
  assumes "quote room_id [] = Inr encoded_room_id"
  shows "(\<exists>bs. utf8_encode room_id = Some bs \<and>
            encoded_room_id =
              concat (map (\<lambda>b. if always_safe b then [b]
                                 else [37, hex_upper (b div 16), hex_upper (b mod 16)]) bs)) \<and>
         (\<forall>c \<in> set encoded_room_id. always_safe c \<or> c = 37) \<and>
         33 \<notin> set encoded_room_id \<and> 58 \<notin> set encoded_room_id \<and>
         map url (put_calls (snd (send_to_matrix rnd put homeserver access_token room_id
                                    plain_text html_text w))) =
           map url (put_calls w) @
           [str ''https://'' @ homeserver @ str ''/_matrix/client/v3/rooms/''
              @ encoded_room_id @ str ''/send/m.room.message/'' @ uuid_str (uuid4 rnd)]"
proof -
  have chars: "\<forall>c \<in> set encoded_room_id. always_safe c \<or> c = 37"
    using quote_chars [OF assms] by blast
  then have "33 \<notin> set encoded_room_id" and "58 \<notin> set encoded_room_id"
    using not_safe_chars by auto
  with chars quote_bytes [OF assms] show ?thesis
    by (simp add: send_to_matrix_put_calls [OF assms])
qed

lemma example_txn_id:
  "uuid_str (uuid4 example_rnd) = str ''12345678-9abc-4ef0-8f1e-2d3c4b5a6978''"
  by (simp add: example_rnd_def uuid4_bytes uuid_str_bytes hex2_def hex_lower_def str_def)

theorem room_id_percent_encoded_witness:
  "quote (str ''!abc123:example.org'') [] = Inr (str ''%21abc123%3Aexample.org'') \<and>
   33 \<notin> set (str ''%21abc123%3Aexample.org'') \<and>
   58 \<notin> set (str ''%21abc123%3Aexample.org'') \<and>
   map url (put_calls (snd (send_to_matrix example_rnd (responds 200 [])
       (str ''matrix.example.org'') (str ''secret'') (str ''!abc123:example.org'')
       (str ''plain'') (str ''html'') \<lparr>stdout = [], stderr = [], put_calls = []\<rparr>))) =
     [str ''https://matrix.example.org/_matrix/client/v3/rooms/%21abc123%3Aexample.org/send/m.room.message/12345678-9abc-4ef0-8f1e-2d3c4b5a6978'']"
proof -
  have "str ''https://'' @ str ''matrix.example.org'' @ str ''/_matrix/client/v3/rooms/''
      @ str ''%21abc123%3Aexample.org'' @ str ''/send/m.room.message/''
      @ str ''12345678-9abc-4ef0-8f1e-2d3c4b5a6978'' =
    str ''https://matrix.example.org/_matrix/client/v3/rooms/%21abc123%3Aexample.org/send/m.room.message/12345678-9abc-4ef0-8f1e-2d3c4b5a6978''"
    by (simp add: str_def)
  with room_id_percent_encoded [OF quote_example, of example_rnd
      "responds 200 []" "str ''matrix.example.org''" "str ''secret''"
      "str ''plain''" "str ''html''" "\<lparr>stdout = [], stderr = [], put_calls = []\<rparr>"]
  show ?thesis
    by (simp add: quote_example example_txn_id)
qed

text \<open>
  C8: in every run with the three parameters present and an encodable room identifier,
  \<open>requests.put\<close> is called exactly once, whatever it answers: with the URL
  \<open>https://{homeserver}/_matrix/client/v3/rooms/{encoded room id}/send/m.room.message/{txn id}\<close>,
  the JSON body of the four fields \<open>msgtype\<close>, \<open>body\<close> (the plain text), \<open>format\<close>
  and \<open>formatted_body\<close> (the HTML text), the headers \<open>Content-Type\<close> and
  \<open>Authorization: Bearer {access token}\<close>, and the timeout of 15 seconds. The
  transaction identifier is made of the sixteen random bytes of the run: it has the
  canonical hyphenated form of a version 4 UUID, and two runs have the same identifier
  only if their random bytes agree in every bit that \<open>uuid4\<close> keeps.
\<close>

theorem delivery_request:
  assumes "env (str ''NOTIFY_PARAMETER_1'') = Some homeserver" and "homeserver \<noteq> []"
    and "env (str ''NOTIFY_PARAMETER_2'') = Some access_token" and "access_token \<noteq> []"
    and "env (str ''NOTIFY_PARAMETER_3'') = Some room_id" and "room_id \<noteq> []"
    and "quote room_id [] = Inr encoded_room_id"
    and "length rnd = 16" and "\<forall>b \<in> set rnd. b < 256"
  shows "put_calls (snd (main uc rnd put env)) =
      [\<lparr>url = str ''https://'' @ homeserver @ str ''/_matrix/client/v3/rooms/''
                @ encoded_room_id @ str ''/send/m.room.message/'' @ uuid_str (uuid4 rnd),
        json = [(str ''msgtype'', str ''m.text''),
                (str ''body'', fst (build_message uc env)),
                (str ''format'', str ''org.matrix.custom.html''),
                (str ''formatted_body'', snd (build_message uc env))],
        headers = [(str ''Content-Type'', str ''application/json''),
                   (str ''Authorization'', str ''Bearer '' @ access_token)],
        timeout = 15\<rparr>] \<and>
     canonical_uuid4 (uuid_str (uuid4 rnd)) \<and>
     (\<forall>rnd'. length rnd' = 16 \<and> (\<forall>b \<in> set rnd'. b < 256) \<and>
        uuid_str (uuid4 rnd') = uuid_str (uuid4 rnd) \<longrightarrow> uuid4 rnd' = uuid4 rnd)"
proof -
  have "put_calls (snd (main uc rnd put env)) =
      [\<lparr>url = str ''https://'' @ homeserver @ str ''/_matrix/client/v3/rooms/''
                @ encoded_room_id @ str ''/send/m.room.message/'' @ uuid_str (uuid4 rnd),
        json = [(str ''msgtype'', str ''m.text''),
                (str ''body'', fst (build_message uc env)),
                (str ''format'', str ''org.matrix.custom.html''),
                (str ''formatted_body'', snd (build_message uc env))],
        headers = [(str ''Content-Type'', str ''application/json''),
                   (str ''Authorization'', str ''Bearer '' @ access_token)],
        timeout = 15\<rparr>]"
    by (simp add: main_valid_quote [OF assms(1-7)] Let_def
        split: put_result.splits exception.splits)
  moreover have "canonical_uuid4 (uuid_str (uuid4 rnd))"
    using assms(8,9) by (rule uuid4_str_canonical)
  moreover have "uuid4 rnd' = uuid4 rnd"
    if "length rnd' = 16" and "\<forall>b \<in> set rnd'. b < 256"
      and "uuid_str (uuid4 rnd') = uuid_str (uuid4 rnd)" for rnd'
  proof (rule uuid_str_inj)
    show "length (uuid4 rnd') = 16" and "\<forall>b \<in> set (uuid4 rnd'). b < 256"
      using uuid4_well_formed [OF that(1,2)] by simp_all
    show "length (uuid4 rnd) = 16" and "\<forall>b \<in> set (uuid4 rnd). b < 256"
      using uuid4_well_formed [OF assms(8,9)] by simp_all
    show "uuid_str (uuid4 rnd') = uuid_str (uuid4 rnd)"
      by (rule that(3))
  qed
  ultimately show ?thesis
    by blast
qed

lemma example_rnd_well_formed: "length example_rnd = 16" "\<forall>b \<in> set example_rnd. b < 256"
  by (simp_all add: example_rnd_def)

theorem delivery_request_witness:
  "put_calls (snd (main example_uc example_rnd (responds 200 []) example_env)) =
      [\<lparr>url = str ''https://matrix.example.org/_matrix/client/v3/rooms/%21abc123%3Aexample.org/send/m.room.message/12345678-9abc-4ef0-8f1e-2d3c4b5a6978'',
        json = [(str ''msgtype'', str ''m.text''),
                (str ''body'', fst (build_message example_uc example_env)),
                (str ''format'', str ''org.matrix.custom.html''),
                (str ''formatted_body'', snd (build_message example_uc example_env))],
        headers = [(str ''Content-Type'', str ''application/json''),
                   (str ''Authorization'', str ''Bearer secret'')],
        timeout = 15\<rparr>] \<and>
   canonical_uuid4 (str ''12345678-9abc-4ef0-8f1e-2d3c4b5a6978'')"
proof -
  have "str ''https://'' @ str ''matrix.example.org'' @ str ''/_matrix/client/v3/rooms/''
      @ str ''%21abc123%3Aexample.org'' @ str ''/send/m.room.message/''
      @ str ''12345678-9abc-4ef0-8f1e-2d3c4b5a6978'' =
    str ''https://matrix.example.org/_matrix/client/v3/rooms/%21abc123%3Aexample.org/send/m.room.message/12345678-9abc-4ef0-8f1e-2d3c4b5a6978''"
    and "str ''Bearer '' @ str ''secret'' = str ''Bearer secret''"
    by (simp_all add: str_def)
  with delivery_request [OF example_parameters(1) example_parameters_not_Nil(1)
      example_parameters(2) example_parameters_not_Nil(2)
      example_parameters(3) example_parameters_not_Nil(3) quote_example
      example_rnd_well_formed, of example_uc "responds 200 []"]
  show ?thesis
    by (simp add: example_txn_id)
qed

end
